theory Spec2Isabelle
  imports Complex_Main
begin

section \<open>JavaScript values\<close>

text \<open>
  The values that flow through \<^verbatim>\<open>createOpenAICompatibleClient\<close>
  (\<^verbatim>\<open>text.pollinations.ai/genericOpenAIClient.js\<close>): request bodies, options, parsed
  response payloads. An object is the list of its own properties in the order of
  \<^verbatim>\<open>Object.keys\<close>; an array carries its elements and the named properties that an
  assignment such as \<^verbatim>\<open>data.id = ...\<close> can add to it. Numbers are exact rationals
  (\<^verbatim>\<open>NaN\<close> and the infinities are not represented). The functions that a plain
  object inherits from \<^verbatim>\<open>Object.prototype\<close> are values too: \<open>JFunction\<close> names one by the
  key it is found under and carries the properties assigned to it. The hooks of the
  provider configuration are functions of the model, not values.
\<close>

datatype jsval =
    JUndefined
  | JNull
  | JBool bool
  | JNum rat
  | JStr string
  | JArr "jsval list" "(string \<times> jsval) list"
  | JObj "(string \<times> jsval) list"
  | JFunction string "(string \<times> jsval) list"

type_synonym jsobj = "(string \<times> jsval) list"

text \<open>
  A thrown value: an \<^verbatim>\<open>Error\<close> instance, with its name and its message, or any other
  value (\<^verbatim>\<open>throw undefined\<close>, \<^verbatim>\<open>throw null\<close>, \<^verbatim>\<open>throw "text"\<close>).
\<close>

datatype error = JsError string string | Thrown jsval

definition Error :: "string \<Rightarrow> error" where
  "Error m = JsError ''Error'' m"

definition TypeError :: "string \<Rightarrow> error" where
  "TypeError m = JsError ''TypeError'' m"

text \<open>\<^verbatim>\<open>!v\<close> is \<open>\<not> truthy v\<close>.\<close>

fun truthy :: "jsval \<Rightarrow> bool" where
  "truthy JUndefined = False"
| "truthy JNull = False"
| "truthy (JBool b) = b"
| "truthy (JNum r) = (r \<noteq> 0)"
| "truthy (JStr s) = (s \<noteq> [])"
| "truthy (JArr xs ps) = True"
| "truthy (JObj kvs) = True"
| "truthy (JFunction n ps) = True"

text \<open>\<^verbatim>\<open>a || b\<close> on values.\<close>

definition js_or :: "jsval \<Rightarrow> jsval \<Rightarrow> jsval" where
  "js_or a b = (if truthy a then a else b)"

subsection \<open>Own properties\<close>

text \<open>\<^verbatim>\<open>o[k]\<close> on an object: the value of the own property, \<^verbatim>\<open>undefined\<close> without one.\<close>

definition lookup :: "jsobj \<Rightarrow> string \<Rightarrow> jsval" where
  "lookup kvs k = (case map_of kvs k of None \<Rightarrow> JUndefined | Some v \<Rightarrow> v)"

definition has_key :: "jsobj \<Rightarrow> string \<Rightarrow> bool" where
  "has_key kvs k = (k \<in> set (map fst kvs))"

text \<open>\<^verbatim>\<open>Object.keys(o)\<close>.\<close>

definition object_keys :: "jsobj \<Rightarrow> string list" where
  "object_keys kvs = map fst kvs"

text \<open>\<^verbatim>\<open>delete o[k]\<close>.\<close>

definition delete_key :: "jsobj \<Rightarrow> string \<Rightarrow> jsobj" where
  "delete_key kvs k = filter (\<lambda>kv. fst kv \<noteq> k) kvs"

text \<open>
  \<^verbatim>\<open>o[k] = v\<close> on an object: an existing property keeps its place, a new one goes last.
\<close>

fun assign_key :: "jsobj \<Rightarrow> string \<Rightarrow> jsval \<Rightarrow> jsobj" where
  "assign_key [] k v = [(k, v)]"
| "assign_key ((k', v') # kvs) k v =
     (if k' = k then (k, v) # kvs else (k', v') # assign_key kvs k v)"

text \<open>An object literal \<^verbatim>\<open>{k1: v1, ..., ...spread}\<close>: the properties are defined in order.\<close>

definition object_literal :: "(string \<times> jsval) list \<Rightarrow> jsobj" where
  "object_literal kvs = fold (\<lambda>kv acc. assign_key acc (fst kv) (snd kv)) kvs []"

definition quoted :: "string \<Rightarrow> string" where
  "quoted k = CHR 0x27 # k @ [CHR 0x27]"

text \<open>
  \<^verbatim>\<open>v.k\<close> for one of the fixed keys the client reads (\<^verbatim>\<open>model\<close>, \<^verbatim>\<open>usage\<close>, \<^verbatim>\<open>id\<close>,
  \<^verbatim>\<open>object\<close>, \<^verbatim>\<open>response_format\<close>, \<^verbatim>\<open>message\<close>): none is an index or an inherited
  member, so a primitive has no such property, and \<^verbatim>\<open>null\<close> and \<^verbatim>\<open>undefined\<close> raise a
  TypeError.
\<close>

fun get_prop :: "jsval \<Rightarrow> string \<Rightarrow> error + jsval" where
  "get_prop JUndefined k =
     Inl (TypeError (''Cannot read properties of undefined (reading '' @ quoted k @ '')''))"
| "get_prop JNull k =
     Inl (TypeError (''Cannot read properties of null (reading '' @ quoted k @ '')''))"
| "get_prop (JObj kvs) k = Inr (lookup kvs k)"
| "get_prop (JArr xs ps) k = Inr (lookup ps k)"
| "get_prop (JFunction n ps) k = Inr (lookup ps k)"
| "get_prop v k = Inr JUndefined"

text \<open>
  \<^verbatim>\<open>v.k = x\<close> for the same fixed keys. The file is an ES module, so the code is strict:
  the assignment to a property of a primitive raises a TypeError.
\<close>

fun set_prop :: "jsval \<Rightarrow> string \<Rightarrow> jsval \<Rightarrow> error + jsval" where
  "set_prop (JObj kvs) k x = Inr (JObj (assign_key kvs k x))"
| "set_prop (JArr xs ps) k x = Inr (JArr xs (assign_key ps k x))"
| "set_prop (JFunction n ps) k x = Inr (JFunction n (assign_key ps k x))"
| "set_prop JUndefined k x =
     Inl (TypeError (''Cannot set properties of undefined (setting '' @ quoted k @ '')''))"
| "set_prop JNull k x =
     Inl (TypeError (''Cannot set properties of null (setting '' @ quoted k @ '')''))"
| "set_prop v k x = Inl (TypeError (''Cannot create property '' @ quoted k))"

subsection \<open>Inherited properties\<close>

text \<open>
  The configuration's mappings are plain objects, so \<^verbatim>\<open>m[k]\<close> with a key chosen by the
  caller finds the own property or, without one, the member of \<^verbatim>\<open>Object.prototype\<close> of that
  name. Under \<^verbatim>\<open>__proto__\<close> that is \<^verbatim>\<open>Object.prototype\<close> itself, an object without
  enumerable own properties: as a value it is \<^verbatim>\<open>{}\<close>. The other members are functions.
\<close>

definition object_prototype_functions :: "string list" where
  "object_prototype_functions =
     [''constructor'', ''__defineGetter__'', ''__defineSetter__'', ''hasOwnProperty'',
      ''__lookupGetter__'', ''__lookupSetter__'', ''isPrototypeOf'', ''propertyIsEnumerable'',
      ''toString'', ''valueOf'', ''toLocaleString'']"

definition inherited :: "string \<Rightarrow> jsval" where
  "inherited k =
     (if k = ''__proto__'' then JObj []
      else if k \<in> set object_prototype_functions then JFunction k []
      else JUndefined)"

definition member :: "jsobj \<Rightarrow> string \<Rightarrow> jsval" where
  "member m k = (case map_of m k of None \<Rightarrow> inherited k | Some v \<Rightarrow> v)"

subsection \<open>Strings\<close>

text \<open>
  Lower case for the ASCII letters, other bytes kept: what \<^verbatim>\<open>s.toLowerCase()\<close> gives
  on an ASCII string. The client takes \<^verbatim>\<open>toLowerCase\<close> from the platform.
\<close>

definition lower_char :: "char \<Rightarrow> char" where
  "lower_char c =
     (case map_of (zip ''ABCDEFGHIJKLMNOPQRSTUVWXYZ'' ''abcdefghijklmnopqrstuvwxyz'') c of
        Some l \<Rightarrow> l
      | None \<Rightarrow> c)"

definition ascii_lower :: "string \<Rightarrow> string" where
  "ascii_lower s = map lower_char s"

text \<open>\<^verbatim>\<open>s.includes(sub)\<close>.\<close>

fun str_includes :: "string \<Rightarrow> string \<Rightarrow> bool" where
  "str_includes [] sub = (sub = [])"
| "str_includes (c # cs) sub = (take (length sub) (c # cs) = sub \<or> str_includes cs sub)"

text \<open>The decimal digits of an HTTP status code, as a template literal prints it.\<close>

definition digit_char :: "nat \<Rightarrow> char" where
  "digit_char d = ''0123456789'' ! d"

function string_of_nat :: "nat \<Rightarrow> string" where
  "string_of_nat n =
     (if n < 10 then [digit_char n] else string_of_nat (n div 10) @ [digit_char (n mod 10)])"
  by pat_completeness auto
termination
  by (relation "measure (\<lambda>n. n)") auto

section \<open>The secondary pass for Cloudflare\<close>

text \<open>
  Lines 104-109 and 113-118:
  \<^verbatim>\<open>Object.keys(o).forEach(key => { if (o[key] === null) delete o[key]; })\<close>.
\<close>

definition remove_null_keys :: "jsobj \<Rightarrow> jsobj" where
  "remove_null_keys o' =
     fold (\<lambda>key acc. if lookup acc key = JNull then delete_key acc key else acc)
       (object_keys o') o'"

text \<open>
  The same loop on an array (\<^verbatim>\<open>typeof\<close> of an array is \<^verbatim>\<open>'object'\<close> too): its keys are
  the indices and the named properties. Deleting an index leaves a hole, which
  \<^verbatim>\<open>JSON.stringify\<close> prints as \<^verbatim>\<open>null\<close> again, so the elements are kept as they are;
  what the code tests next is whether any key is left.
\<close>

definition array_keys_left :: "jsval list \<Rightarrow> jsobj \<Rightarrow> bool" where
  "array_keys_left xs ps =
     (filter (\<lambda>x. x \<noteq> JNull) xs \<noteq> [] \<or> remove_null_keys ps \<noteq> [])"

text \<open>
  Lines 112-125: the nested check of \<^verbatim>\<open>response_format\<close>, and its removal when no key
  is left.
\<close>

definition clean_response_format :: "jsobj \<Rightarrow> jsobj" where
  "clean_response_format body =
     (case lookup body ''response_format'' of
        JObj rf \<Rightarrow>
          (let rf' = remove_null_keys rf in
           if length (object_keys rf') = 0 then delete_key body ''response_format''
           else assign_key body ''response_format'' (JObj rf'))
      | JArr xs ps \<Rightarrow>
          (if array_keys_left xs ps
           then assign_key body ''response_format'' (JArr xs (remove_null_keys ps))
           else delete_key body ''response_format'')
      | _ \<Rightarrow> body)"

text \<open>Lines 99-126: the whole block under \<^verbatim>\<open>if (providerName === 'Cloudflare')\<close>.\<close>

definition cloudflare_pass :: "jsobj \<Rightarrow> jsobj" where
  "cloudflare_pass body = clean_response_format (remove_null_keys body)"

definition secondary_pass :: "string \<Rightarrow> jsobj \<Rightarrow> jsobj" where
  "secondary_pass providerName body =
     (if providerName = ''Cloudflare'' then cloudflare_pass body else body)"

section \<open>Configuration, collaborators and transport\<close>

text \<open>
  \<^verbatim>\<open>endpoint\<close> is a URL or a function of the resolved model name
  (\<^verbatim>\<open>typeof endpoint === 'function'\<close>).
\<close>

datatype endpoint = EndpointUrl jsval | EndpointFun "jsval \<Rightarrow> error + jsval"

text \<open>
  The record \<^verbatim>\<open>normalizeOptions\<close> returns, with the fields the client reads. The model
  key is a string, or \<open>None\<close> for \<^verbatim>\<open>undefined\<close>.
\<close>

record normalized_options =
  model :: "string option"
  temperature :: jsval
  stream :: jsval
  seed :: jsval
  maxTokens :: jsval
  jsonMode :: jsval
  tools :: jsval
  tool_choice :: jsval

text \<open>
  The destructured \<^verbatim>\<open>config\<close> (lines 28-39), defaults applied: \<^verbatim>\<open>authHeaderName\<close>
  is \<^verbatim>\<open>'Authorization'\<close>, \<^verbatim>\<open>providerName\<close> is \<^verbatim>\<open>'unknown'\<close>, the mappings and
  \<^verbatim>\<open>additionalHeaders\<close> are \<^verbatim>\<open>{}\<close>, the two hooks are \<^verbatim>\<open>null\<close> (\<open>None\<close>) when the
  caller leaves them out. \<^verbatim>\<open>authHeaderValue n\<close> is what the accessor yields at its
  invocation number \<open>n\<close> during one call (0 at line 57, 1 at line 144): a value, or the
  value it throws. A hook that throws returns \<open>Inl\<close>. What \<^verbatim>\<open>formatResponse\<close> returns
  is returned by the client without \<^verbatim>\<open>await\<close> (line 234): a value or a promise that is
  fulfilled with one (\<open>Fulfilled\<close>), or a promise that rejects (\<open>Rejected\<close>).
\<close>

datatype settled = Fulfilled jsval | Rejected error

record config =
  endpoint :: endpoint
  authHeaderName :: string
  authHeaderValue :: "nat \<Rightarrow> error + jsval"
  modelMapping :: jsobj
  systemPrompts :: jsobj
  defaultOptions :: jsval
  providerName :: string
  formatResponse :: "(jsval \<Rightarrow> string \<Rightarrow> int \<Rightarrow> jsval \<Rightarrow> error + settled) option"
  additionalHeaders :: jsobj
  transformRequest :: "(jsobj \<Rightarrow> error + jsobj) option"

text \<open>
  The functions imported from \<^verbatim>\<open>textGenerationUtils.js\<close> (lines 3-11), whose source is
  not part of the files at hand: they are parameters of the client, typed by the way it
  calls them. Each may throw (\<open>Inl\<close>), except \<^verbatim>\<open>createErrorResponse\<close>, which builds a
  response from any thrown value it is given, and \<^verbatim>\<open>generateRequestId\<close>, given as the
  identifier it returns for this call.
\<close>

record helpers =
  validateAndNormalizeMessages :: "jsval \<Rightarrow> error + jsval"
  cleanNullAndUndefined :: "jsobj \<Rightarrow> error + jsobj"
  ensureSystemMessage :: "jsval \<Rightarrow> normalized_options \<Rightarrow> jsval \<Rightarrow> error + jsval"
  generateRequestId :: string
  createErrorResponse :: "error \<Rightarrow> string \<Rightarrow> jsval"
  normalizeOptions :: "jsval \<Rightarrow> jsval \<Rightarrow> error + normalized_options"

text \<open>What \<^verbatim>\<open>fetch\<close> is called with (lines 152-156).\<close>

record http_request =
  url :: jsval
  http_method :: string
  headers :: jsobj
  body :: string

text \<open>
  The \<^verbatim>\<open>node-fetch\<close> response: status line, header entries, the handle of the unread
  body, and what \<^verbatim>\<open>text()\<close> and \<^verbatim>\<open>json()\<close> resolve to or reject with.
\<close>

record http_response =
  status :: nat
  statusText :: string
  header_entries :: "(string \<times> string) list"
  response_body :: nat
  response_text :: "error + string"
  response_json :: "error + jsval"

text \<open>\<^verbatim>\<open>response.ok\<close>, as \<^verbatim>\<open>node-fetch\<close> defines it: the status is in the range 200-299.\<close>

definition response_ok :: "http_response \<Rightarrow> bool" where
  "response_ok r = (200 \<le> status r \<and> status r < 300)"

text \<open>
  The platform: \<^verbatim>\<open>Date.now()\<close> at line 46, \<^verbatim>\<open>fetch\<close> (which rejects with \<open>Inl\<close>),
  \<^verbatim>\<open>JSON.stringify\<close> and \<^verbatim>\<open>String.prototype.toLowerCase\<close>.
\<close>

record runtime =
  date_now :: int
  fetch :: "http_request \<Rightarrow> error + http_response"
  JSON_stringify :: "jsval \<Rightarrow> string"
  toLowerCase :: "string \<Rightarrow> string"

text \<open>The object returned at lines 180-191.\<close>

record streaming_envelope =
  env_id :: string
  env_object :: string
  env_created :: int
  env_model :: jsval
  env_stream :: bool
  env_responseStream :: nat
  env_providerName :: string
  env_isSSE :: jsval
  env_choices :: jsval
  env_error :: jsval

datatype call_result = Envelope streaming_envelope | Response jsval

text \<open>
  How the \<^verbatim>\<open>try\<close> block ends: it throws, and the \<^verbatim>\<open>catch\<close> clause takes over; it returns
  a value; or it returns, without \<^verbatim>\<open>await\<close>, a promise that rejects, which the \<^verbatim>\<open>catch\<close>
  clause never sees.
\<close>

datatype completion = Throws error | Returns call_result | ReturnsRejected error

section \<open>The client\<close>

subsection \<open>Building the request body (lines 55-126)\<close>

text \<open>
  Lines 56-59: \<^verbatim>\<open>if (!authHeaderValue()) throw new Error(...)\<close>, the first invocation of
  the accessor.
\<close>

definition check_api_key :: "config \<Rightarrow> error + unit" where
  "check_api_key cfg =
     (case authHeaderValue cfg 0 of
        Inl e \<Rightarrow> Inl e
      | Inr v \<Rightarrow>
          if \<not> truthy v then Inl (Error (providerName cfg @ '' API key is not set''))
          else Inr ())"

text \<open>A value used as a property key: \<^verbatim>\<open>undefined\<close> reads the key \<^verbatim>\<open>"undefined"\<close>.\<close>

definition property_key :: "string option \<Rightarrow> string" where
  "property_key k = (case k of None \<Rightarrow> ''undefined'' | Some s \<Rightarrow> s)"

text \<open>\<^verbatim>\<open>Object.keys(m)[0]\<close>.\<close>

definition first_key :: "jsobj \<Rightarrow> string option" where
  "first_key m = (case object_keys m of [] \<Rightarrow> None | k # ks \<Rightarrow> Some k)"

text \<open>
  Lines 66 and 72: \<^verbatim>\<open>m[modelKey] || m[Object.keys(m)[0]]\<close>, for \<^verbatim>\<open>modelMapping\<close> and for
  \<^verbatim>\<open>systemPrompts\<close>. Both reads go through the prototype chain.
\<close>

definition resolve_entry :: "jsobj \<Rightarrow> string option \<Rightarrow> jsval" where
  "resolve_entry m modelKey =
     js_or (member m (property_key modelKey)) (member m (property_key (first_key m)))"

text \<open>Lines 76-86: the object literal \<^verbatim>\<open>requestBody\<close>.\<close>

definition request_body :: "jsval \<Rightarrow> jsval \<Rightarrow> normalized_options \<Rightarrow> jsobj" where
  "request_body modelName messagesWithSystem normalizedOptions =
     [(''model'', modelName),
      (''messages'', messagesWithSystem),
      (''temperature'', temperature normalizedOptions),
      (''stream'', stream normalizedOptions),
      (''seed'', seed normalizedOptions),
      (''max_tokens'', maxTokens normalizedOptions),
      (''response_format'',
         if truthy (jsonMode normalizedOptions) then JObj [(''type'', JStr ''json_object'')]
         else JUndefined),
      (''tools'', tools normalizedOptions),
      (''tool_choice'', tool_choice normalizedOptions)]"

text \<open>
  Lines 56-89, up to \<^verbatim>\<open>cleanedRequestBody\<close>: the normalized options, the resolved model
  name and the sanitized body, or the first error thrown on the way.
\<close>

definition cleaned_request_body ::
  "config \<Rightarrow> helpers \<Rightarrow> jsval \<Rightarrow> jsval \<Rightarrow> error + normalized_options \<times> jsval \<times> jsobj" where
  "cleaned_request_body cfg h messages options =
     (case check_api_key cfg of
        Inl e \<Rightarrow> Inl e
      | Inr u \<Rightarrow>
     (case normalizeOptions h options (defaultOptions cfg) of
        Inl e \<Rightarrow> Inl e
      | Inr normalizedOptions \<Rightarrow>
     (let modelKey = model normalizedOptions;
          modelName = resolve_entry (modelMapping cfg) modelKey in
      case validateAndNormalizeMessages h messages of
        Inl e \<Rightarrow> Inl e
      | Inr validatedMessages \<Rightarrow>
     (let defaultSystemPrompt = resolve_entry (systemPrompts cfg) modelKey in
      case ensureSystemMessage h validatedMessages normalizedOptions defaultSystemPrompt of
        Inl e \<Rightarrow> Inl e
      | Inr messagesWithSystem \<Rightarrow>
     (case cleanNullAndUndefined h (request_body modelName messagesWithSystem normalizedOptions) of
        Inl e \<Rightarrow> Inl e
      | Inr cleanedRequestBody \<Rightarrow> Inr (normalizedOptions, modelName, cleanedRequestBody))))))"

text \<open>Lines 94-96: the optional hook.\<close>

definition apply_transform :: "config \<Rightarrow> jsobj \<Rightarrow> error + jsobj" where
  "apply_transform cfg cleanedRequestBody =
     (case transformRequest cfg of
        Some f \<Rightarrow> f cleanedRequestBody
      | None \<Rightarrow> Inr cleanedRequestBody)"

text \<open>Lines 56-126: \<^verbatim>\<open>finalRequestBody\<close> as it stands when the request is sent.\<close>

definition final_request_body ::
  "config \<Rightarrow> helpers \<Rightarrow> jsval \<Rightarrow> jsval \<Rightarrow> error + normalized_options \<times> jsval \<times> jsobj" where
  "final_request_body cfg h messages options =
     (case cleaned_request_body cfg h messages options of
        Inl e \<Rightarrow> Inl e
      | Inr (normalizedOptions, modelName, cleanedRequestBody) \<Rightarrow>
     (case apply_transform cfg cleanedRequestBody of
        Inl e \<Rightarrow> Inl e
      | Inr finalRequestBody \<Rightarrow>
          Inr (normalizedOptions, modelName,
               secondary_pass (providerName cfg) finalRequestBody)))"

subsection \<open>Dispatch (lines 137-156)\<close>

text \<open>
  The credential in the headers is what the second invocation of the accessor returns
  (line 144).
\<close>

definition endpoint_url :: "config \<Rightarrow> jsval \<Rightarrow> error + jsval" where
  "endpoint_url cfg modelName =
     (case endpoint cfg of EndpointFun f \<Rightarrow> f modelName | EndpointUrl u \<Rightarrow> Inr u)"

definition request_headers :: "config \<Rightarrow> jsval \<Rightarrow> jsobj" where
  "request_headers cfg credential =
     object_literal
       ([(authHeaderName cfg, credential), (''Content-Type'', JStr ''application/json'')]
        @ additionalHeaders cfg)"

definition build_request :: "config \<Rightarrow> runtime \<Rightarrow> jsval \<Rightarrow> jsobj \<Rightarrow> error + http_request" where
  "build_request cfg rt modelName finalRequestBody =
     (case endpoint_url cfg modelName of
        Inl e \<Rightarrow> Inl e
      | Inr endpointUrl \<Rightarrow>
     (case authHeaderValue cfg 1 of
        Inl e \<Rightarrow> Inl e
      | Inr credential \<Rightarrow>
          Inr \<lparr>url = endpointUrl, http_method = ''POST'',
               headers = request_headers cfg credential,
               body = JSON_stringify rt (JObj finalRequestBody)\<rparr>))"

subsection \<open>The streaming branch (lines 159-192)\<close>

definition api_error_message :: "config \<Rightarrow> http_response \<Rightarrow> string" where
  "api_error_message cfg response =
     providerName cfg @ '' API error: '' @ string_of_nat (status response) @ '' ''
       @ statusText response"

text \<open>Line 161 and line 177: the header object, and the optional-chained test on it.\<close>

definition is_sse :: "http_response \<Rightarrow> jsval" where
  "is_sse response =
     (case lookup (object_literal (map (\<lambda>kv. (fst kv, JStr (snd kv))) (header_entries response)))
             ''content-type'' of
        JStr s \<Rightarrow> JBool (str_includes s ''text/event-stream'')
      | v \<Rightarrow> JUndefined)"

definition streaming_response ::
  "config \<Rightarrow> runtime \<Rightarrow> string \<Rightarrow> int \<Rightarrow> jsval \<Rightarrow> http_response
     \<Rightarrow> error + call_result" where
  "streaming_response cfg rt requestId startTime modelName response =
     (if \<not> response_ok response then
        (case response_text response of
           Inl e \<Rightarrow> Inl e
         | Inr errorText \<Rightarrow> Inl (Error (api_error_message cfg response)))
      else
        Inr (Envelope
          \<lparr>env_id = toLowerCase rt (providerName cfg) @ ''-'' @ requestId,
           env_object = ''chat.completion.chunk'',
           env_created = startTime div 1000,
           env_model = modelName,
           env_stream = True,
           env_responseStream = response_body response,
           env_providerName = providerName cfg,
           env_isSSE = is_sse response,
           env_choices =
             JArr [JObj [(''delta'', JObj [(''content'', JStr [])]),
                         (''finish_reason'', JNull), (''index'', JNum 0)]] [],
           env_error =
             (if \<not> response_ok response
              then JObj [(''message'', JStr (api_error_message cfg response))]
              else JUndefined)\<rparr>))"

subsection \<open>The non-streaming branch (lines 201-259)\<close>

text \<open>
  Lines 239-255: each of \<^verbatim>\<open>id\<close>, \<^verbatim>\<open>object\<close> and \<^verbatim>\<open>usage\<close> is assigned its default when
  the payload's value is falsy.
\<close>

definition default_usage :: jsval where
  "default_usage =
     JObj [(''prompt_tokens'', JNum 0), (''completion_tokens'', JNum 0),
           (''total_tokens'', JNum 0)]"

definition fill_missing :: "jsval \<Rightarrow> string \<Rightarrow> jsval \<Rightarrow> error + jsval" where
  "fill_missing data k dflt =
     (case get_prop data k of
        Inl e \<Rightarrow> Inl e
      | Inr v \<Rightarrow> if \<not> truthy v then set_prop data k dflt else Inr data)"

definition backfill :: "config \<Rightarrow> runtime \<Rightarrow> string \<Rightarrow> jsval \<Rightarrow> error + jsval" where
  "backfill cfg rt requestId data =
     (case fill_missing data ''id''
             (JStr (toLowerCase rt (providerName cfg) @ ''-'' @ requestId)) of
        Inl e \<Rightarrow> Inl e
      | Inr data1 \<Rightarrow>
     (case fill_missing data1 ''object'' (JStr ''chat.completion'') of
        Inl e \<Rightarrow> Inl e
      | Inr data2 \<Rightarrow> fill_missing data2 ''usage'' default_usage))"

text \<open>
  Lines 202-259. The arguments of the log call at lines 223-230 are evaluated before the
  formatter is looked at, and \<^verbatim>\<open>data.model\<close> is the first of them to read a property of
  the payload. Line 234 is \<^verbatim>\<open>return formatResponse(...)\<close>, not \<^verbatim>\<open>return await\<close>: a formatter
  that throws is inside the \<^verbatim>\<open>try\<close>, a promise it returns is not.
\<close>

definition json_response ::
  "config \<Rightarrow> helpers \<Rightarrow> runtime \<Rightarrow> string \<Rightarrow> int \<Rightarrow> jsval \<Rightarrow> http_response
     \<Rightarrow> completion" where
  "json_response cfg h rt requestId startTime modelName response =
     (if \<not> response_ok response then
        (case response_text response of
           Inl e \<Rightarrow> Throws e
         | Inr errorText \<Rightarrow>
             Returns (Response (createErrorResponse h
                    (Error (api_error_message cfg response @ '' - '' @ errorText))
                    (providerName cfg))))
      else
        (case response_json response of
           Inl e \<Rightarrow> Throws e
         | Inr data \<Rightarrow>
        (case get_prop data ''model'' of
           Inl e \<Rightarrow> Throws e
         | Inr logged \<Rightarrow>
        (case formatResponse cfg of
           Some f \<Rightarrow>
             (case f data requestId startTime modelName of
                Inl e \<Rightarrow> Throws e
              | Inr (Fulfilled formatted) \<Rightarrow> Returns (Response formatted)
              | Inr (Rejected e) \<Rightarrow> ReturnsRejected e)
         | None \<Rightarrow>
             (case backfill cfg rt requestId data of
                Inl e \<Rightarrow> Throws e
              | Inr data' \<Rightarrow> Returns (Response data'))))))"

subsection \<open>The whole call (lines 45-271)\<close>

text \<open>
  The body of the \<^verbatim>\<open>try\<close> block: how it ends, and the requests handed to \<^verbatim>\<open>fetch\<close> on
  the way.
\<close>

definition try_block ::
  "config \<Rightarrow> helpers \<Rightarrow> runtime \<Rightarrow> jsval \<Rightarrow> jsval \<Rightarrow> completion \<times> http_request list" where
  "try_block cfg h rt messages options =
     (case final_request_body cfg h messages options of
        Inl e \<Rightarrow> (Throws e, [])
      | Inr (normalizedOptions, modelName, finalRequestBody) \<Rightarrow>
     (case build_request cfg rt modelName finalRequestBody of
        Inl e \<Rightarrow> (Throws e, [])
      | Inr request \<Rightarrow>
     (case fetch rt request of
        Inl e \<Rightarrow> (Throws e, [request])
      | Inr response \<Rightarrow>
          (if truthy (stream normalizedOptions)
           then (case streaming_response cfg rt (generateRequestId h) (date_now rt) modelName
                        response of
                   Inl e \<Rightarrow> Throws e
                 | Inr envelope \<Rightarrow> Returns envelope)
           else json_response cfg h rt (generateRequestId h) (date_now rt) modelName response,
           [request]))))"

text \<open>
  The \<^verbatim>\<open>catch\<close> clause of lines 260-270. Its log call reads \<^verbatim>\<open>error.message\<close>,
  \<^verbatim>\<open>error.name\<close> and \<^verbatim>\<open>error.stack\<close> first: when the thrown value is \<^verbatim>\<open>null\<close> or
  \<^verbatim>\<open>undefined\<close> the first read raises a TypeError, which leaves the function. Otherwise
  the clause returns \<^verbatim>\<open>createErrorResponse(error, providerName)\<close>.
\<close>

definition read_message :: "error \<Rightarrow> error + jsval" where
  "read_message e =
     (case e of JsError name message \<Rightarrow> Inr (JStr message) | Thrown v \<Rightarrow> get_prop v ''message'')"

definition catch_clause :: "config \<Rightarrow> helpers \<Rightarrow> error \<Rightarrow> error + call_result" where
  "catch_clause cfg h e =
     (case read_message e of
        Inl raised \<Rightarrow> Inl raised
      | Inr message \<Rightarrow> Inr (Response (createErrorResponse h e (providerName cfg))))"

text \<open>\<^verbatim>\<open>options = {}\<close> in the parameter list of the client (line 45).\<close>

definition options_or_default :: "jsval \<Rightarrow> jsval" where
  "options_or_default options = (if options = JUndefined then JObj [] else options)"

text \<open>
  The function that \<^verbatim>\<open>createOpenAICompatibleClient(config)\<close> returns, applied to
  \<^verbatim>\<open>(messages, options)\<close>. \<^verbatim>\<open>options\<close> defaults to \<^verbatim>\<open>{}\<close>. The first component is the
  outcome of the call: \<open>Inr\<close> a returned value, \<open>Inl\<close> a value thrown to the caller (the
  promise rejects).
\<close>

definition createOpenAICompatibleClient ::
  "config \<Rightarrow> helpers \<Rightarrow> runtime \<Rightarrow> jsval \<Rightarrow> jsval \<Rightarrow> (error + call_result) \<times> http_request list" where
  "createOpenAICompatibleClient cfg h rt messages options =
     (case try_block cfg h rt messages (options_or_default options) of
        (Throws e, requests) \<Rightarrow> (catch_clause cfg h e, requests)
      | (Returns v, requests) \<Rightarrow> (Inr v, requests)
      | (ReturnsRejected e, requests) \<Rightarrow> (Inl e, requests))"

section \<open>The sanitizer and the other collaborators, from their contracts\<close>

text \<open>
  Modelled from the spec: \<^verbatim>\<open>cleanNullAndUndefined\<close> of \<^verbatim>\<open>textGenerationUtils.js\<close>, whose
  source is missing. Section 4.2: it "returns a structurally identical value with every
  key whose value is null or absent removed, recursively through nested objects (arrays
  pass through unsanitized at the element level unless elements are themselves objects)".
\<close>

fun sanitize :: "jsval \<Rightarrow> jsval" where
  "sanitize (JObj kvs) =
     JObj (map (\<lambda>kv. (fst kv, sanitize (snd kv)))
            (filter (\<lambda>kv. snd kv \<noteq> JNull \<and> snd kv \<noteq> JUndefined) kvs))"
| "sanitize (JArr xs ps) =
     JArr (map (\<lambda>x. case x of JObj kvs \<Rightarrow> sanitize x | _ \<Rightarrow> x) xs) ps"
| "sanitize v = v"

definition sanitize_object :: "jsobj \<Rightarrow> jsobj" where
  "sanitize_object kvs =
     map (\<lambda>kv. (fst kv, sanitize (snd kv)))
       (filter (\<lambda>kv. snd kv \<noteq> JNull \<and> snd kv \<noteq> JUndefined) kvs)"

text \<open>
  Modelled from the spec: \<^verbatim>\<open>validateAndNormalizeMessages\<close>, whose source is missing.
  Section 4.1: an input that is not an array is rejected with "Invalid messages".
\<close>

definition spec_validateAndNormalizeMessages :: "jsval \<Rightarrow> error + jsval" where
  "spec_validateAndNormalizeMessages messages =
     (case messages of
        JArr xs ps \<Rightarrow> Inr (JArr xs ps)
      | _ \<Rightarrow> Inl (Error ''Invalid messages''))"

text \<open>
  Modelled from the spec: \<^verbatim>\<open>normalizeOptions\<close>, whose source is missing. Section 4.3: for
  every recognized field the caller's value wins over the provider default.
\<close>

definition merged_option :: "jsval \<Rightarrow> jsval \<Rightarrow> string \<Rightarrow> jsval" where
  "merged_option options defaults k =
     (case options of
        JObj kvs \<Rightarrow>
          if has_key kvs k then lookup kvs k
          else (case defaults of JObj ds \<Rightarrow> lookup ds k | _ \<Rightarrow> JUndefined)
      | _ \<Rightarrow> (case defaults of JObj ds \<Rightarrow> lookup ds k | _ \<Rightarrow> JUndefined))"

definition spec_normalizeOptions :: "jsval \<Rightarrow> jsval \<Rightarrow> error + normalized_options" where
  "spec_normalizeOptions options defaults =
     Inr \<lparr>model = (case merged_option options defaults ''model'' of
                     JStr s \<Rightarrow> Some s | _ \<Rightarrow> None),
          temperature = merged_option options defaults ''temperature'',
          stream = merged_option options defaults ''stream'',
          seed = merged_option options defaults ''seed'',
          maxTokens = merged_option options defaults ''maxTokens'',
          jsonMode = merged_option options defaults ''jsonMode'',
          tools = merged_option options defaults ''tools'',
          tool_choice = merged_option options defaults ''tool_choice''\<rparr>"

text \<open>
  Modelled from the spec: \<^verbatim>\<open>ensureSystemMessage\<close>, whose source is missing. Section 4.4:
  a sequence without a system-role message gets one prepended, built from the default
  prompt; a sequence that has one is left unchanged.
\<close>

definition is_system_message :: "jsval \<Rightarrow> bool" where
  "is_system_message m =
     (case m of JObj kvs \<Rightarrow> lookup kvs ''role'' = JStr ''system'' | _ \<Rightarrow> False)"

definition spec_ensureSystemMessage ::
  "jsval \<Rightarrow> normalized_options \<Rightarrow> jsval \<Rightarrow> error + jsval" where
  "spec_ensureSystemMessage messages normalizedOptions defaultSystemPrompt =
     (case messages of
        JArr xs ps \<Rightarrow>
          if filter is_system_message xs \<noteq> [] then Inr (JArr xs ps)
          else Inr (JArr (JObj [(''role'', JStr ''system''),
                                (''content'', defaultSystemPrompt)] # xs) ps)
      | _ \<Rightarrow> Inr messages)"

text \<open>
  Modelled from the spec: \<^verbatim>\<open>createErrorResponse\<close>, whose source is missing. Section 3:
  the Uniform Error Response carries the message and the provider name; section 8: its
  error field is populated.
\<close>

definition spec_createErrorResponse :: "error \<Rightarrow> string \<Rightarrow> jsval" where
  "spec_createErrorResponse e providerName' =
     JObj [(''error'',
            JObj [(''message'', (case read_message e of Inl raised \<Rightarrow> JUndefined | Inr m \<Rightarrow> m)),
                  (''providerName'', JStr providerName')])]"

definition spec_helpers :: helpers where
  "spec_helpers =
     \<lparr>validateAndNormalizeMessages = spec_validateAndNormalizeMessages,
      cleanNullAndUndefined = (\<lambda>b. Inr (sanitize_object b)),
      ensureSystemMessage = spec_ensureSystemMessage,
      generateRequestId = ''k3x9q'',
      createErrorResponse = spec_createErrorResponse,
      normalizeOptions = spec_normalizeOptions\<rparr>"

section \<open>Stating the claims\<close>


section \<open>Concrete configurations\<close>

text \<open>A provider in the shape of the repository's Cloudflare client, and a conversation.\<close>

definition cloudflare_config :: config where
  "cloudflare_config =
     \<lparr>endpoint = EndpointUrl (JStr ''https://upstream.example/v1/chat/completions''),
      authHeaderName = ''Authorization'',
      authHeaderValue = (\<lambda>n. Inr (JStr ''Bearer secret'')),
      modelMapping = [(''llama'', JStr ''@cf/meta/llama-3.1-8b-instruct''),
                      (''deepseek'', JStr ''@cf/deepseek-ai/deepseek-r1'')],
      systemPrompts = [(''llama'', JStr ''You are a helpful assistant.'')],
      defaultOptions = JObj [(''model'', JStr ''llama'')],
      providerName = ''Cloudflare'',
      formatResponse = None,
      additionalHeaders = [],
      transformRequest = None\<rparr>"

definition hello_messages :: jsval where
  "hello_messages = JArr [JObj [(''role'', JStr ''user''), (''content'', JStr ''Hello'')]] []"

text \<open>
  An upstream that answers every request with the given status line and payload, on a
  platform whose serializer is left opaque.
\<close>

definition upstream_response :: "nat \<Rightarrow> string \<Rightarrow> error + jsval \<Rightarrow> http_response" where
  "upstream_response code reason payload =
     \<lparr>status = code, statusText = reason,
      header_entries = [(''content-type'', ''text/event-stream'')],
      response_body = 7,
      response_text = Inr ''upstream failure'',
      response_json = payload\<rparr>"

definition upstream :: "nat \<Rightarrow> string \<Rightarrow> error + jsval \<Rightarrow> runtime" where
  "upstream code reason payload =
     \<lparr>date_now = 1700000000000,
      fetch = (\<lambda>request. Inr (upstream_response code reason payload)),
      JSON_stringify = (\<lambda>v. ''<json>''),
      toLowerCase = ascii_lower\<rparr>"

text \<open>The request that \<open>cloudflare_config\<close> sends to it.\<close>

definition hello_request :: http_request where
  "hello_request =
     \<lparr>url = JStr ''https://upstream.example/v1/chat/completions'',
      http_method = ''POST'',
      headers = [(''Authorization'', JStr ''Bearer secret''),
                 (''Content-Type'', JStr ''application/json'')],
      body = ''<json>''\<rparr>"

text \<open>What a call without options normalizes to, and the body it sends.\<close>

definition plain_options :: normalized_options where
  "plain_options =
     \<lparr>model = Some ''llama'', temperature = JUndefined, stream = JUndefined,
      seed = JUndefined, maxTokens = JUndefined, jsonMode = JUndefined,
      tools = JUndefined, tool_choice = JUndefined\<rparr>"

definition hello_with_system :: jsval where
  "hello_with_system =
     JArr [JObj [(''role'', JStr ''system''),
                 (''content'', JStr ''You are a helpful assistant.'')],
           JObj [(''role'', JStr ''user''), (''content'', JStr ''Hello'')]] []"

definition plain_body :: jsobj where
  "plain_body =
     [(''model'', JStr ''@cf/meta/llama-3.1-8b-instruct''),
      (''messages'',
       JArr [JObj [(''role'', JStr ''system''),
                   (''content'', JStr ''You are a helpful assistant.'')],
             JObj [(''role'', JStr ''user''), (''content'', JStr ''Hello'')]] [])]"

text \<open>
  \<^verbatim>\<open>transformRequest\<close> hooks: one sets \<^verbatim>\<open>response_format\<close> to an object whose only field
  is null; one adds a null seed and a \<^verbatim>\<open>response_format\<close> with a null field beside its
  type; one adds a null \<^verbatim>\<open>top_p\<close> and a \<^verbatim>\<open>stream_options\<close> object with a null field; one
  adds a \<^verbatim>\<open>user\<close> field; one throws \<^verbatim>\<open>undefined\<close>.
\<close>

definition null_format_hook :: "jsobj \<Rightarrow> error + jsobj" where
  "null_format_hook b = Inr (assign_key b ''response_format'' (JObj [(''type'', JNull)]))"

definition mixed_format_hook :: "jsobj \<Rightarrow> error + jsobj" where
  "mixed_format_hook b =
     Inr (assign_key (assign_key b ''seed'' JNull) ''response_format''
            (JObj [(''type'', JStr ''json_object''), (''schema'', JNull)]))"

definition nested_null_hook :: "jsobj \<Rightarrow> error + jsobj" where
  "nested_null_hook b =
     Inr (assign_key (assign_key b ''top_p'' JNull) ''stream_options''
            (JObj [(''include_usage'', JNull)]))"

definition user_hook :: "jsobj \<Rightarrow> error + jsobj" where
  "user_hook b = Inr (assign_key b ''user'' (JStr ''pollinations''))"

definition undefined_hook :: "jsobj \<Rightarrow> error + jsobj" where
  "undefined_hook b = Inl (Thrown JUndefined)"

definition model_name :: jsval where
  "model_name = JStr ''@cf/meta/llama-3.1-8b-instruct''"

text \<open>
  A serializer for the values of these examples: \<^verbatim>\<open>JSON.stringify\<close> on values whose
  strings need no escaping and whose numbers are natural numbers. Properties whose value
  is \<^verbatim>\<open>undefined\<close> or a function are left out; in an array such an element is \<^verbatim>\<open>null\<close>.
\<close>

definition double_quoted :: "string \<Rightarrow> string" where
  "double_quoted s = CHR 0x22 # s @ [CHR 0x22]"

fun comma_separated :: "string list \<Rightarrow> string" where
  "comma_separated [] = []"
| "comma_separated [x] = x"
| "comma_separated (x # y # zs) = x @ '','' @ comma_separated (y # zs)"

fun serialized :: "jsval \<Rightarrow> bool" where
  "serialized JUndefined = False"
| "serialized (JFunction n ps) = False"
| "serialized v = True"

fun show_json :: "jsval \<Rightarrow> string" where
  "show_json JNull = ''null''"
| "show_json JUndefined = ''null''"
| "show_json (JFunction n ps) = ''null''"
| "show_json (JBool b) = (if b then ''true'' else ''false'')"
| "show_json (JNum r) = string_of_nat (nat \<lfloor>r\<rfloor>)"
| "show_json (JStr s) = double_quoted s"
| "show_json (JArr xs ps) = ''['' @ comma_separated (map show_json xs) @ '']''"
| "show_json (JObj kvs) =
     ''{'' @ comma_separated
              (map (\<lambda>kv. double_quoted (fst kv) @ '':'' @ show_json (snd kv))
                 (filter (\<lambda>kv. serialized (snd kv)) kvs)) @ ''}''"

text \<open>
  Variations of that provider. The first has an endpoint computed from the model name, an
  extra header, the hook that adds a \<^verbatim>\<open>user\<close> field, and an accessor whose second
  invocation returns another credential than the first; its platform serializes with
  \<open>show_json\<close>. Then a mapping with an empty entry, and three response formatters: one
  returns a value, one returns a promise that rejects, and the last configuration has
  the hook that throws \<^verbatim>\<open>undefined\<close>.
\<close>

definition model_endpoint :: "jsval \<Rightarrow> error + jsval" where
  "model_endpoint modelName =
     (case modelName of
        JStr s \<Rightarrow> Inr (JStr (''https://upstream.example/models/'' @ s))
      | _ \<Rightarrow> Inr (JStr ''https://upstream.example/models/undefined''))"

definition rotating_credential :: "nat \<Rightarrow> error + jsval" where
  "rotating_credential n =
     Inr (JStr (if n = 0 then ''Bearer first'' else ''Bearer second''))"

definition routed_config :: config where
  "routed_config =
     cloudflare_config
       \<lparr>endpoint := EndpointFun model_endpoint,
        authHeaderValue := rotating_credential,
        additionalHeaders := [(''X-Title'', JStr ''pollinations'')],
        transformRequest := Some user_hook\<rparr>"

definition printing_upstream :: runtime where
  "printing_upstream = (upstream 200 ''OK'' (Inr (JObj [])))\<lparr>JSON_stringify := show_json\<rparr>"

definition routed_body :: jsobj where
  "routed_body = plain_body @ [(''user'', JStr ''pollinations'')]"

definition routed_request :: http_request where
  "routed_request =
     \<lparr>url = JStr ''https://upstream.example/models/@cf/meta/llama-3.1-8b-instruct'',
      http_method = ''POST'',
      headers = [(''Authorization'', JStr ''Bearer second''),
                 (''Content-Type'', JStr ''application/json''),
                 (''X-Title'', JStr ''pollinations'')],
      body = show_json (JObj routed_body)\<rparr>"

definition draft_config :: config where
  "draft_config =
     cloudflare_config
       \<lparr>modelMapping := [(''llama'', JStr ''@cf/meta/llama-3.1-8b-instruct''),
                         (''draft'', JStr [])]\<rparr>"

definition deepseek_name :: jsval where
  "deepseek_name = JStr ''@cf/deepseek-ai/deepseek-r1''"

definition deepseek_body :: jsobj where
  "deepseek_body =
     [(''model'', JStr ''@cf/deepseek-ai/deepseek-r1''),
      (''messages'',
       JArr [JObj [(''role'', JStr ''system''),
                   (''content'', JStr ''You are a helpful assistant.'')],
             JObj [(''role'', JStr ''user''), (''content'', JStr ''Hello'')]] []),
      (''user'', JStr ''pollinations'')]"

text \<open>
  The body built for the model key \<^verbatim>\<open>constructor\<close>, which no mapping of the configuration
  has as an own property: both reads find \<^verbatim>\<open>Object.prototype.constructor\<close>.
\<close>

definition constructor_body :: jsobj where
  "constructor_body =
     [(''model'', JFunction ''constructor'' []),
      (''messages'',
       JArr [JObj [(''role'', JStr ''system''),
                   (''content'', JFunction ''constructor'' [])],
             JObj [(''role'', JStr ''user''), (''content'', JStr ''Hello'')]] [])]"

definition wrap_formatter :: "jsval \<Rightarrow> string \<Rightarrow> int \<Rightarrow> jsval \<Rightarrow> error + settled" where
  "wrap_formatter data requestId startTime modelName =
     Inr (Fulfilled (JObj [(''request'', JStr requestId), (''model'', modelName),
                           (''raw'', data)]))"

definition formatting_config :: config where
  "formatting_config = cloudflare_config\<lparr>formatResponse := Some wrap_formatter\<rparr>"

definition rejecting_formatter :: "jsval \<Rightarrow> string \<Rightarrow> int \<Rightarrow> jsval \<Rightarrow> error + settled" where
  "rejecting_formatter data requestId startTime modelName =
     Inr (Rejected (Error ''choices is empty''))"

definition rejecting_config :: config where
  "rejecting_config = cloudflare_config\<lparr>formatResponse := Some rejecting_formatter\<rparr>"

definition throwing_config :: config where
  "throwing_config = cloudflare_config\<lparr>transformRequest := Some undefined_hook\<rparr>"

text \<open>
  A payload without \<^verbatim>\<open>id\<close>, with an \<^verbatim>\<open>object\<close> of its own and with \<^verbatim>\<open>usage: null\<close>, and
  what the client makes of it.
\<close>

definition choices_payload :: jsobj where
  "choices_payload =
     [(''choices'', JArr [] []), (''object'', JStr ''text_completion''), (''usage'', JNull)]"

definition backfilled_payload :: jsobj where
  "backfilled_payload =
     [(''choices'', JArr [] []), (''object'', JStr ''text_completion''),
      (''usage'', JObj [(''prompt_tokens'', JNum 0), (''completion_tokens'', JNum 0),
                        (''total_tokens'', JNum 0)]),
      (''id'', JStr ''cloudflare-k3x9q'')]"

text \<open>The envelope of a successful streaming call against that upstream.\<close>

definition hello_envelope :: streaming_envelope where
  "hello_envelope =
     \<lparr>env_id = ''cloudflare-k3x9q'',
      env_object = ''chat.completion.chunk'', env_created = 1700000000,
      env_model = JStr ''@cf/meta/llama-3.1-8b-instruct'',
      env_stream = True, env_responseStream = 7,
      env_providerName = ''Cloudflare'', env_isSSE = JBool True,
      env_choices =
        JArr [JObj [(''delta'', JObj [(''content'', JStr [])]),
                    (''finish_reason'', JNull), (''index'', JNum 0)]] [],
      env_error = JUndefined\<rparr>"

section \<open>Evaluation and control-flow lemmas\<close>

lemmas evaluation_defs =
  createOpenAICompatibleClient_def try_block_def final_request_body_def
  cleaned_request_body_def check_api_key_def options_or_default_def
  apply_transform_def secondary_pass_def cloudflare_pass_def clean_response_format_def
  remove_null_keys_def object_keys_def delete_key_def lookup_def has_key_def
  build_request_def endpoint_url_def request_headers_def object_literal_def
  streaming_response_def json_response_def backfill_def fill_missing_def default_usage_def
  api_error_message_def is_sse_def response_ok_def resolve_entry_def property_key_def
  first_key_def js_or_def request_body_def ascii_lower_def lower_char_def digit_char_def
  member_def inherited_def object_prototype_functions_def catch_clause_def read_message_def
  Error_def TypeError_def quoted_def
  spec_helpers_def sanitize_object_def spec_validateAndNormalizeMessages_def
  spec_normalizeOptions_def merged_option_def spec_ensureSystemMessage_def
  is_system_message_def spec_createErrorResponse_def
  cloudflare_config_def hello_messages_def upstream_def upstream_response_def
  hello_request_def plain_options_def plain_body_def null_format_hook_def
  mixed_format_hook_def nested_null_hook_def model_name_def Let_def

lemmas variation_defs =
  routed_config_def routed_request_def routed_body_def model_endpoint_def draft_config_def
  deepseek_name_def deepseek_body_def constructor_body_def wrap_formatter_def formatting_config_def
  rejecting_formatter_def rejecting_config_def throwing_config_def undefined_hook_def
  user_hook_def rotating_credential_def printing_upstream_def
  choices_payload_def backfilled_payload_def hello_with_system_def

lemma json_response_no_envelope:
  "json_response cfg h rt requestId startTime modelName response \<noteq> Returns (Envelope env)"
  by (simp add: json_response_def split: sum.splits option.splits settled.splits)

lemma catch_clause_Error:
  "catch_clause cfg h (Error m) = Inr (Response (createErrorResponse h (Error m) (providerName cfg)))"
  by (simp add: catch_clause_def read_message_def Error_def)

lemma fst_client:
  "fst (createOpenAICompatibleClient cfg h rt messages options)
   = (case fst (try_block cfg h rt messages (options_or_default options)) of
        Throws e \<Rightarrow> catch_clause cfg h e
      | Returns v \<Rightarrow> Inr v
      | ReturnsRejected e \<Rightarrow> Inl e)"
  by (simp add: createOpenAICompatibleClient_def split: prod.splits completion.splits)

lemma snd_client:
  "snd (createOpenAICompatibleClient cfg h rt messages options)
   = snd (try_block cfg h rt messages (options_or_default options))"
  by (simp add: createOpenAICompatibleClient_def split: prod.splits completion.splits)

section \<open>The credential check\<close>

text \<open>
  Claim C3. When \<^verbatim>\<open>authHeaderValue()\<close> returns an empty or otherwise falsy credential,
  the call fails with the configuration error "<providerName> API key is not set" before
  any HTTP request is issued: \<^verbatim>\<open>fetch\<close> is never called (the list of requests is
  empty), and what the caller gets is the error response built from that error.
\<close>

theorem missing_api_key_fails_before_dispatch:
  assumes "authHeaderValue cfg 0 = Inr v" and "\<not> truthy v"
  shows "createOpenAICompatibleClient cfg h rt messages options =
           (Inr (Response (createErrorResponse h
                   (Error (providerName cfg @ '' API key is not set'')) (providerName cfg))),
            [])"
  using assms
  by (simp add: createOpenAICompatibleClient_def try_block_def final_request_body_def
      cleaned_request_body_def check_api_key_def catch_clause_Error)

theorem missing_api_key_witness:
  "authHeaderValue (cloudflare_config\<lparr>authHeaderValue := (\<lambda>n. Inr (JStr []))\<rparr>) 0
     = Inr (JStr [])
   \<and> \<not> truthy (JStr [])
   \<and> createOpenAICompatibleClient (cloudflare_config\<lparr>authHeaderValue := (\<lambda>n. Inr (JStr []))\<rparr>)
        spec_helpers (upstream 200 ''OK'' (Inr (JObj []))) hello_messages (JObj [])
      = (Inr (Response (JObj [(''error'',
              JObj [(''message'', JStr ''Cloudflare API key is not set''),
                    (''providerName'', JStr ''Cloudflare'')])])), [])"
  using missing_api_key_fails_before_dispatch
    [of "cloudflare_config\<lparr>authHeaderValue := (\<lambda>n. Inr (JStr []))\<rparr>" "JStr []" spec_helpers
        "upstream 200 ''OK'' (Inr (JObj []))" hello_messages "JObj []"]
  by (simp add: cloudflare_config_def spec_helpers_def spec_createErrorResponse_def Error_def
      read_message_def)

section \<open>The streaming envelope\<close>

lemma streaming_200_run:
  "fst (createOpenAICompatibleClient cloudflare_config spec_helpers
        (upstream 200 ''OK'' (Inr (JObj []))) hello_messages (JObj [(''stream'', JBool True)]))
   = Inr (Envelope hello_envelope)"
  by (simp add: evaluation_defs hello_envelope_def)

text \<open>
  Claim C10. Every streaming envelope that the client returns has its \<^verbatim>\<open>error\<close> field
  equal to \<^verbatim>\<open>undefined\<close>: the envelope is only built when \<^verbatim>\<open>response.ok\<close> holds, so the
  \<^verbatim>\<open>!response.ok\<close> alternative of line 190 is never taken.
\<close>

theorem envelope_error_undefined:
  assumes "fst (createOpenAICompatibleClient cfg h rt messages options) = Inr (Envelope env)"
  shows "env_error env = JUndefined"
  using assms json_response_no_envelope
  by (auto simp add: fst_client try_block_def streaming_response_def catch_clause_def
      split: prod.splits sum.splits if_splits completion.splits)

theorem envelope_error_undefined_witness:
  "fst (createOpenAICompatibleClient cloudflare_config spec_helpers
        (upstream 200 ''OK'' (Inr (JObj []))) hello_messages (JObj [(''stream'', JBool True)]))
   = Inr (Envelope hello_envelope)
   \<and> env_error hello_envelope = JUndefined"
  using envelope_error_undefined [OF streaming_200_run] streaming_200_run
  by simp

section \<open>Errors: thrown or returned\<close>

lemma final_request_body_options:
  assumes "final_request_body cfg h messages opts = Inr (no, mn, fb)"
  shows "normalizeOptions h opts (defaultOptions cfg) = Inr no"
  using assms
  by (auto simp add: final_request_body_def cleaned_request_body_def Let_def
      split: sum.splits prod.splits)

lemma streaming_prefix:
  "final_request_body cloudflare_config spec_helpers hello_messages
     (options_or_default (JObj [(''stream'', JBool True)]))
   = Inr (\<lparr>model = Some ''llama'', temperature = JUndefined, stream = JBool True,
            seed = JUndefined, maxTokens = JUndefined, jsonMode = JUndefined,
            tools = JUndefined, tool_choice = JUndefined\<rparr>,
          JStr ''@cf/meta/llama-3.1-8b-instruct'',
          [(''model'', JStr ''@cf/meta/llama-3.1-8b-instruct''),
           (''messages'',
            JArr [JObj [(''role'', JStr ''system''),
                        (''content'', JStr ''You are a helpful assistant.'')],
                  JObj [(''role'', JStr ''user''), (''content'', JStr ''Hello'')]] []),
           (''stream'', JBool True)])"
  by (simp add: evaluation_defs)

text \<open>
  Claim C1 says that a streaming call whose upstream response is not 2xx throws, and that
  the failure is not turned into a Uniform Error Response. The code does otherwise: the
  \<^verbatim>\<open>throw\<close> of line 170 sits inside the \<^verbatim>\<open>try\<close> block of lines 55-260, so the
  \<^verbatim>\<open>catch\<close> clause of lines 260-270 receives the error and the call returns
  \<^verbatim>\<open>createErrorResponse(error, providerName)\<close> for the error
  "<providerName> API error: <status> <statusText>", after one request has been sent.
\<close>

theorem streaming_preflight_failure_is_returned:
  assumes "final_request_body cfg h messages (options_or_default options) = Inr (no, mn, fb)"
    and "build_request cfg rt mn fb = Inr req"
    and "fetch rt req = Inr resp"
    and "truthy (stream no)"
    and "\<not> response_ok resp"
    and "response_text resp = Inr errorText"
  shows "createOpenAICompatibleClient cfg h rt messages options =
           (Inr (Response (createErrorResponse h (Error (api_error_message cfg resp))
                             (providerName cfg))),
            [req])"
  using assms
  by (simp add: createOpenAICompatibleClient_def try_block_def streaming_response_def
      catch_clause_Error)

theorem streaming_preflight_failure_witness:
  "truthy (JBool True)
   \<and> \<not> response_ok (upstream_response 500 ''Internal Server Error'' (Inr JNull))
   \<and> createOpenAICompatibleClient cloudflare_config spec_helpers
        (upstream 500 ''Internal Server Error'' (Inr JNull)) hello_messages
        (JObj [(''stream'', JBool True)])
      = (Inr (Response (JObj [(''error'',
              JObj [(''message'', JStr ''Cloudflare API error: 500 Internal Server Error''),
                    (''providerName'', JStr ''Cloudflare'')])])),
         [hello_request])"
  using streaming_preflight_failure_is_returned
    [OF streaming_prefix,
     of "upstream 500 ''Internal Server Error'' (Inr JNull)" hello_request
        "upstream_response 500 ''Internal Server Error'' (Inr JNull)" "''upstream failure''"]
  by (simp add: evaluation_defs)


lemma plain_run:
  "cleaned_request_body cloudflare_config spec_helpers hello_messages (JObj [])
   = Inr (plain_options, model_name, plain_body)"
  by (simp add: evaluation_defs)

text \<open>
  What does hold of the \<^verbatim>\<open>catch\<close> clause: a thrown value whose \<^verbatim>\<open>message\<close> can be read
  (any value but \<^verbatim>\<open>null\<close> and \<^verbatim>\<open>undefined\<close>) is returned as
  \<^verbatim>\<open>createErrorResponse(error, providerName)\<close>.
\<close>

lemma thrown_value_is_returned:
  assumes "fst (try_block cfg h rt messages (options_or_default options)) = Throws e"
    and "e \<noteq> Thrown JNull" and "e \<noteq> Thrown JUndefined"
  shows "fst (createOpenAICompatibleClient cfg h rt messages options)
         = Inr (Response (createErrorResponse h e (providerName cfg)))"
proof -
  have "\<exists>m. read_message e = Inr m"
  proof (cases e)
    case (JsError name message)
    then show ?thesis by (simp add: read_message_def)
  next
    case (Thrown v)
    with assms(2,3) show ?thesis by (cases v) (simp_all add: read_message_def)
  qed
  with assms(1) show ?thesis
    by (auto simp add: fst_client catch_clause_def)
qed

text \<open>
  Claim C2 says that a call whose normalized options do not request streaming never
  throws. The code lets two failures through. Line 234 returns the formatter's promise
  without \<^verbatim>\<open>await\<close>, so a formatter whose promise rejects makes the call reject after the
  request has been sent. And the log call of the \<^verbatim>\<open>catch\<close> clause (lines 261-267) reads
  \<^verbatim>\<open>error.message\<close> before \<^verbatim>\<open>createErrorResponse\<close> is called, so a hook that throws
  \<^verbatim>\<open>undefined\<close> or \<^verbatim>\<open>null\<close> makes the call reject with a TypeError.
\<close>

theorem non_streaming_call_can_throw:
  "(final_request_body cfg h messages (options_or_default options) = Inr (no, mn, fb)
      \<longrightarrow> \<not> truthy (stream no)
      \<longrightarrow> build_request cfg rt mn fb = Inr req
      \<longrightarrow> fetch rt req = Inr resp
      \<longrightarrow> response_ok resp
      \<longrightarrow> response_json resp = Inr (JObj payload)
      \<longrightarrow> formatResponse cfg = Some f
      \<longrightarrow> f (JObj payload) (generateRequestId h) (date_now rt) mn = Inr (Rejected e)
      \<longrightarrow> createOpenAICompatibleClient cfg h rt messages options = (Inl e, [req]))
   \<and> (cleaned_request_body cfg h messages (options_or_default options) = Inr (no', mn', cb)
      \<longrightarrow> \<not> truthy (stream no')
      \<longrightarrow> transformRequest cfg = Some hook
      \<longrightarrow> hook cb = Inl (Thrown JUndefined)
      \<longrightarrow> createOpenAICompatibleClient cfg h rt messages options
          = (Inl (TypeError (''Cannot read properties of undefined (reading ''
                             @ quoted ''message'' @ '')'')), []))
   \<and> (cleaned_request_body cfg h messages (options_or_default options) = Inr (no', mn', cb)
      \<longrightarrow> \<not> truthy (stream no')
      \<longrightarrow> transformRequest cfg = Some hook
      \<longrightarrow> hook cb = Inl (Thrown JNull)
      \<longrightarrow> createOpenAICompatibleClient cfg h rt messages options
          = (Inl (TypeError (''Cannot read properties of null (reading ''
                             @ quoted ''message'' @ '')'')), []))"
  by (simp add: createOpenAICompatibleClient_def try_block_def json_response_def
      final_request_body_def apply_transform_def catch_clause_def read_message_def)

theorem non_streaming_call_can_throw_witness:
  "\<not> truthy (stream plain_options)
   \<and> response_ok (upstream_response 200 ''OK'' (Inr (JObj choices_payload)))
   \<and> formatResponse rejecting_config = Some rejecting_formatter
   \<and> createOpenAICompatibleClient rejecting_config spec_helpers
        (upstream 200 ''OK'' (Inr (JObj choices_payload))) hello_messages (JObj [])
      = (Inl (Error ''choices is empty''), [hello_request])
   \<and> transformRequest throwing_config = Some undefined_hook
   \<and> createOpenAICompatibleClient throwing_config spec_helpers
        (upstream 200 ''OK'' (Inr (JObj choices_payload))) hello_messages (JObj [])
      = (Inl (TypeError (''Cannot read properties of undefined (reading ''
                         @ quoted ''message'' @ '')'')), [])"
proof -
  have plain: "\<not> truthy (stream plain_options)"
    by (simp add: plain_options_def)
  have prefix: "final_request_body rejecting_config spec_helpers hello_messages
                  (options_or_default (JObj []))
                = Inr (plain_options, model_name, plain_body)"
    by (simp add: evaluation_defs variation_defs)
  have request: "build_request rejecting_config
                   (upstream 200 ''OK'' (Inr (JObj choices_payload))) model_name plain_body
                 = Inr hello_request"
    by (simp add: evaluation_defs variation_defs)
  have answer: "fetch (upstream 200 ''OK'' (Inr (JObj choices_payload))) hello_request
                  = Inr (upstream_response 200 ''OK'' (Inr (JObj choices_payload)))"
    by (simp add: upstream_def)
  have good: "response_ok (upstream_response 200 ''OK'' (Inr (JObj choices_payload)))"
    by (simp add: response_ok_def upstream_response_def)
  have parsed: "response_json (upstream_response 200 ''OK'' (Inr (JObj choices_payload)))
                  = Inr (JObj choices_payload)"
    by (simp add: upstream_response_def)
  have formatter: "formatResponse rejecting_config = Some rejecting_formatter"
    by (simp add: rejecting_config_def)
  have rejected: "rejecting_formatter (JObj choices_payload) (generateRequestId spec_helpers)
                    (date_now (upstream 200 ''OK'' (Inr (JObj choices_payload)))) model_name
                  = Inr (Rejected (Error ''choices is empty''))"
    by (simp add: rejecting_formatter_def)
  have cleaned: "cleaned_request_body throwing_config spec_helpers hello_messages
                   (options_or_default (JObj []))
                 = Inr (plain_options, model_name, plain_body)"
    by (simp add: evaluation_defs variation_defs)
  have hook: "transformRequest throwing_config = Some undefined_hook"
    by (simp add: throwing_config_def)
  have thrown: "undefined_hook plain_body = Inl (Thrown JUndefined)"
    by (simp add: undefined_hook_def)
  note escapes = non_streaming_call_can_throw
    [where cfg = rejecting_config and h = spec_helpers and messages = hello_messages
       and options = "JObj []" and no = plain_options and mn = model_name and fb = plain_body
       and rt = "upstream 200 ''OK'' (Inr (JObj choices_payload))" and req = hello_request
       and resp = "upstream_response 200 ''OK'' (Inr (JObj choices_payload))"
       and payload = choices_payload and f = rejecting_formatter
       and e = "Error ''choices is empty''", THEN conjunct1, rule_format,
     OF prefix plain request answer good parsed formatter rejected]
  note raises = non_streaming_call_can_throw
    [where cfg = throwing_config and h = spec_helpers and messages = hello_messages
       and options = "JObj []" and no' = plain_options and mn' = model_name and cb = plain_body
       and rt = "upstream 200 ''OK'' (Inr (JObj choices_payload))" and hook = undefined_hook,
     THEN conjunct2, THEN conjunct1, rule_format, OF cleaned plain hook thrown]
  from plain good formatter escapes hook raises show ?thesis by simp
qed

section \<open>The secondary pass\<close>

lemma lookup_delete_key:
  "lookup (delete_key b x) k = (if k = x then JUndefined else lookup b k)"
  by (induction b) (auto simp add: lookup_def delete_key_def)

lemma lookup_assign_key:
  "lookup (assign_key b x v) k = (if k = x then v else lookup b k)"
  by (induction b x v rule: assign_key.induct) (auto simp add: lookup_def)

lemma has_key_delete_key: "\<not> has_key (delete_key b k) k"
  by (auto simp add: has_key_def delete_key_def)

lemma lookup_null_has_key: "lookup b k = JNull \<Longrightarrow> k \<in> set (object_keys b)"
  by (auto simp add: lookup_def object_keys_def split: option.splits dest: map_of_SomeD
      intro: rev_image_eqI)

text \<open>The loop over the keys: a visited key whose value is null is gone afterwards.\<close>

lemma lookup_null_sweep:
  "lookup (fold (\<lambda>key acc. if lookup acc key = JNull then delete_key acc key else acc) ks acc) k
   = (if k \<in> set ks \<and> lookup acc k = JNull then JUndefined else lookup acc k)"
  by (induction ks arbitrary: acc) (auto simp add: lookup_delete_key)

lemma lookup_remove_null_keys:
  "lookup (remove_null_keys b) k = (if lookup b k = JNull then JUndefined else lookup b k)"
  using lookup_null_has_key [of b k]
  by (auto simp add: remove_null_keys_def lookup_null_sweep)



lemma clean_response_format_nested:
  assumes "lookup (clean_response_format b) ''response_format'' = JObj rf'"
  shows "lookup rf' k \<noteq> JNull"
  using assms
  by (auto simp add: clean_response_format_def Let_def lookup_assign_key lookup_delete_key
      lookup_remove_null_keys split: jsval.splits if_splits)


lemma cloudflare_pass_empty_format:
  assumes "lookup b ''response_format'' = JObj rf" and "remove_null_keys rf = []"
  shows "\<not> has_key (cloudflare_pass b) ''response_format''"
proof -
  have "lookup (remove_null_keys b) ''response_format'' = JObj rf"
    using assms(1) by (simp add: lookup_remove_null_keys)
  then show ?thesis
    using assms(2)
    by (simp add: cloudflare_pass_def clean_response_format_def object_keys_def
        has_key_delete_key)
qed




lemma has_key_assign_key: "has_key (assign_key b x v) k \<longleftrightarrow> k = x \<or> has_key b k"
  by (induction b x v rule: assign_key.induct) (auto simp add: has_key_def)










text \<open>
  Claim C5. For the provider with the secondary pass (Cloudflare), when the
  \<^verbatim>\<open>response_format\<close> of the body is an object that the null-stripping of that pass
  leaves empty, the final outbound body has no \<^verbatim>\<open>response_format\<close> key.
\<close>

theorem empty_response_format_is_removed:
  assumes "providerName cfg = ''Cloudflare''"
    and "cleaned_request_body cfg h messages opts = Inr (no, mn, cb)"
    and "apply_transform cfg cb = Inr tb"
    and "lookup tb ''response_format'' = JObj rf"
    and "remove_null_keys rf = []"
  shows "final_request_body cfg h messages opts = Inr (no, mn, cloudflare_pass tb)
       \<and> \<not> has_key (cloudflare_pass tb) ''response_format''"
  using assms cloudflare_pass_empty_format
  by (simp add: final_request_body_def secondary_pass_def)

theorem empty_response_format_witness:
  "providerName (cloudflare_config\<lparr>transformRequest := Some null_format_hook\<rparr>) = ''Cloudflare''
   \<and> apply_transform (cloudflare_config\<lparr>transformRequest := Some null_format_hook\<rparr>) plain_body
     = Inr (plain_body @ [(''response_format'', JObj [(''type'', JNull)])])
   \<and> remove_null_keys [(''type'', JNull)] = []
   \<and> final_request_body (cloudflare_config\<lparr>transformRequest := Some null_format_hook\<rparr>)
       spec_helpers hello_messages (JObj [])
     = Inr (plain_options, model_name, plain_body)
   \<and> \<not> has_key plain_body ''response_format''"
proof -
  have name: "providerName (cloudflare_config\<lparr>transformRequest := Some null_format_hook\<rparr>)
                = ''Cloudflare''"
    by (simp add: cloudflare_config_def)
  have cleaned: "cleaned_request_body (cloudflare_config\<lparr>transformRequest := Some null_format_hook\<rparr>)
                   spec_helpers hello_messages (JObj [])
                 = Inr (plain_options, model_name, plain_body)"
    by (simp add: evaluation_defs)
  have hooked: "apply_transform (cloudflare_config\<lparr>transformRequest := Some null_format_hook\<rparr>)
                  plain_body
                = Inr (plain_body @ [(''response_format'', JObj [(''type'', JNull)])])"
    by (simp add: evaluation_defs)
  have format: "lookup (plain_body @ [(''response_format'', JObj [(''type'', JNull)])])
                  ''response_format'' = JObj [(''type'', JNull)]"
    by (simp add: lookup_def plain_body_def)
  have stripped: "remove_null_keys [(''type'', JNull)] = []"
    by (simp add: evaluation_defs)
  have pass: "cloudflare_pass (plain_body @ [(''response_format'', JObj [(''type'', JNull)])])
                = plain_body"
    by (simp add: evaluation_defs)
  from empty_response_format_is_removed [OF name cleaned hooked format stripped]
    name hooked stripped
  show ?thesis by (simp add: pass)
qed


section \<open>The request body and the sanitizer\<close>

lemma has_key_sanitize_object:
  "has_key (sanitize_object b) k \<longleftrightarrow> (\<exists>v. (k, v) \<in> set b \<and> v \<noteq> JNull \<and> v \<noteq> JUndefined)"
  by (force simp add: has_key_def sanitize_object_def)

lemma lookup_sanitize_object:
  "lookup (sanitize_object b) k =
     (case map_of (filter (\<lambda>kv. snd kv \<noteq> JNull \<and> snd kv \<noteq> JUndefined) b) k of
        None \<Rightarrow> JUndefined | Some v \<Rightarrow> sanitize v)"
  by (induction b) (auto simp add: lookup_def sanitize_object_def)

lemma request_body_response_format:
  "lookup (request_body mn ms no) ''response_format''
   = (if truthy (jsonMode no) then JObj [(''type'', JStr ''json_object'')] else JUndefined)"
  by (simp add: request_body_def lookup_def)

lemma map_of_filter_distinct:
  "distinct (map fst b) \<Longrightarrow>
   map_of (filter P b) k = (case map_of b k of None \<Rightarrow> None | Some v \<Rightarrow> if P (k, v) then Some v else None)"
  by (induction b) (auto split: option.splits dest: map_of_SomeD intro: rev_image_eqI)

lemma lookup_sanitize_object_distinct:
  assumes "distinct (map fst b)"
  shows "lookup (sanitize_object b) k =
           (if lookup b k = JNull \<or> lookup b k = JUndefined then JUndefined
            else sanitize (lookup b k))"
  unfolding lookup_sanitize_object
  using assms
  by (auto simp add: map_of_filter_distinct lookup_def split: option.splits)

lemma distinct_request_body: "distinct (map fst (request_body mn ms no))"
  by (simp add: request_body_def)

lemma response_format_entry:
  "(''response_format'', v) \<in> set (request_body mn ms no) \<longleftrightarrow>
   v = (if truthy (jsonMode no) then JObj [(''type'', JStr ''json_object'')] else JUndefined)"
  by (simp add: request_body_def)

lemma sanitized_response_format_key:
  "has_key (sanitize_object (request_body mn ms no)) ''response_format'' \<longleftrightarrow> truthy (jsonMode no)"
  by (simp add: has_key_sanitize_object response_format_entry)

lemma sanitized_response_format_value:
  "truthy (jsonMode no) \<Longrightarrow>
   lookup (sanitize_object (request_body mn ms no)) ''response_format''
   = JObj [(''type'', JStr ''json_object'')]"
  by (simp add: lookup_sanitize_object_distinct distinct_request_body request_body_response_format)

lemma lookup_has_key: "lookup b k \<noteq> JUndefined \<Longrightarrow> has_key b k"
  by (auto simp add: lookup_def has_key_def split: option.splits dest: map_of_SomeD
      intro: rev_image_eqI)


lemma has_key_delete_keyD: "has_key (delete_key b x) k \<Longrightarrow> has_key b k"
  by (auto simp add: has_key_def delete_key_def)

lemma has_key_null_sweep:
  "has_key (fold (\<lambda>key acc. if lookup acc key = JNull then delete_key acc key else acc) ks acc) k
   \<Longrightarrow> has_key acc k"
  by (induction ks arbitrary: acc) (auto dest: has_key_delete_keyD split: if_splits)

lemma has_key_remove_null_keysD: "has_key (remove_null_keys b) k \<Longrightarrow> has_key b k"
  unfolding remove_null_keys_def by (rule has_key_null_sweep)

lemma lookup_object_has_key: "lookup b k = JObj rf \<Longrightarrow> has_key b k"
  by (rule lookup_has_key) simp

lemma lookup_array_has_key: "lookup b k = JArr xs ps \<Longrightarrow> has_key b k"
  by (rule lookup_has_key) simp

lemma has_key_clean_response_formatD: "has_key (clean_response_format b) k \<Longrightarrow> has_key b k"
  by (auto simp add: clean_response_format_def Let_def has_key_assign_key
      dest: has_key_delete_keyD lookup_object_has_key lookup_array_has_key
      split: jsval.splits if_splits)

lemma has_key_secondary_passD: "has_key (secondary_pass pn b) k \<Longrightarrow> has_key b k"
  by (auto simp add: secondary_pass_def cloudflare_pass_def
      dest: has_key_clean_response_formatD has_key_remove_null_keysD split: if_splits)

text \<open>
  Claim C7. The request body handed to the generic sanitizer has \<^verbatim>\<open>response_format\<close> with
  the value \<^verbatim>\<open>{type: 'json_object'}\<close> if and only if the normalized \<^verbatim>\<open>jsonMode\<close> is set
  (truthy). With the sanitizer of section 4.2, the sanitized body that is handed to
  \<^verbatim>\<open>transformRequest\<close> has the \<^verbatim>\<open>response_format\<close> key exactly when \<^verbatim>\<open>jsonMode\<close> is set,
  and so has the body that is dispatched when no hook is configured.
\<close>

theorem response_format_present_iff_json_mode:
  assumes "cleanNullAndUndefined h = (\<lambda>b. Inr (sanitize_object b))"
    and "cleaned_request_body cfg h messages opts = Inr (no, mn, cb)"
  shows "(\<exists>ms. cb = sanitize_object (request_body mn ms no)
            \<and> (lookup (request_body mn ms no) ''response_format''
                 = JObj [(''type'', JStr ''json_object'')] \<longleftrightarrow> truthy (jsonMode no)))
       \<and> (has_key cb ''response_format'' \<longleftrightarrow> truthy (jsonMode no))
       \<and> (truthy (jsonMode no)
            \<longrightarrow> lookup cb ''response_format'' = JObj [(''type'', JStr ''json_object'')])
       \<and> (transformRequest cfg = None
            \<longrightarrow> final_request_body cfg h messages opts
                  = Inr (no, mn, secondary_pass (providerName cfg) cb)
              \<and> (\<not> truthy (jsonMode no)
                   \<longrightarrow> \<not> has_key (secondary_pass (providerName cfg) cb) ''response_format''))"
proof -
  from assms obtain ms where cb: "cb = sanitize_object (request_body mn ms no)"
    by (auto simp add: cleaned_request_body_def Let_def split: sum.splits)
  have literal: "lookup (request_body mn ms no) ''response_format''
                   = JObj [(''type'', JStr ''json_object'')] \<longleftrightarrow> truthy (jsonMode no)"
    by (simp add: request_body_response_format)
  have key: "has_key cb ''response_format'' \<longleftrightarrow> truthy (jsonMode no)"
    unfolding cb by (rule sanitized_response_format_key)
  have val: "lookup cb ''response_format'' = JObj [(''type'', JStr ''json_object'')]"
    if "truthy (jsonMode no)"
    unfolding cb using that by (rule sanitized_response_format_value)
  have final: "final_request_body cfg h messages opts
                 = Inr (no, mn, secondary_pass (providerName cfg) cb)"
    if "transformRequest cfg = None"
    using that assms(2) by (simp add: final_request_body_def apply_transform_def)
  have absent: "\<not> has_key (secondary_pass (providerName cfg) cb) ''response_format''"
    if "\<not> truthy (jsonMode no)"
    using that key has_key_secondary_passD by blast
  from cb literal key val final absent show ?thesis by blast
qed

lemma json_mode_run:
  "cleaned_request_body cloudflare_config spec_helpers hello_messages
     (JObj [(''jsonMode'', JBool True)])
   = Inr (plain_options\<lparr>jsonMode := JBool True\<rparr>, model_name,
          plain_body @ [(''response_format'', JObj [(''type'', JStr ''json_object'')])])"
  by (simp add: evaluation_defs)

theorem response_format_witness:
  "cleanNullAndUndefined spec_helpers = (\<lambda>b. Inr (sanitize_object b))
   \<and> cleaned_request_body cloudflare_config spec_helpers hello_messages
       (JObj [(''jsonMode'', JBool True)])
     = Inr (plain_options\<lparr>jsonMode := JBool True\<rparr>, model_name,
            plain_body @ [(''response_format'', JObj [(''type'', JStr ''json_object'')])])
   \<and> truthy (jsonMode (plain_options\<lparr>jsonMode := JBool True\<rparr>))
   \<and> lookup (plain_body @ [(''response_format'', JObj [(''type'', JStr ''json_object'')])])
       ''response_format'' = JObj [(''type'', JStr ''json_object'')]
   \<and> cleaned_request_body cloudflare_config spec_helpers hello_messages (JObj [])
     = Inr (plain_options, model_name, plain_body)
   \<and> \<not> truthy (jsonMode plain_options)
   \<and> \<not> has_key plain_body ''response_format''
   \<and> final_request_body cloudflare_config spec_helpers hello_messages (JObj [])
     = Inr (plain_options, model_name, secondary_pass ''Cloudflare'' plain_body)
   \<and> \<not> has_key (secondary_pass ''Cloudflare'' plain_body) ''response_format''"
proof -
  have sanitizer: "cleanNullAndUndefined spec_helpers = (\<lambda>b. Inr (sanitize_object b))"
    by (simp add: spec_helpers_def)
  have set: "truthy (jsonMode (plain_options\<lparr>jsonMode := JBool True\<rparr>))"
    by simp
  have unset: "\<not> truthy (jsonMode plain_options)"
    by (simp add: plain_options_def)
  have hook: "transformRequest cloudflare_config = None"
    and name: "providerName cloudflare_config = ''Cloudflare''"
    by (simp_all add: cloudflare_config_def)
  from response_format_present_iff_json_mode [OF sanitizer json_mode_run]
    response_format_present_iff_json_mode [OF sanitizer plain_run]
    sanitizer json_mode_run plain_run set unset hook name
  show ?thesis by metis
qed


section \<open>Model resolution and dispatch\<close>

lemma map_of_rev_distinct: "distinct (map fst xs) \<Longrightarrow> map_of (rev xs) k = map_of xs k"
  by (induction xs)
    (auto simp add: map_add_def split: option.splits dest: map_of_SomeD intro: rev_image_eqI)

lemma lookup_define_all:
  "lookup (fold (\<lambda>kv acc. assign_key acc (fst kv) (snd kv)) kvs acc) k
   = (case map_of (rev kvs) k of Some v \<Rightarrow> v | None \<Rightarrow> lookup acc k)"
proof (induction kvs arbitrary: acc)
  case Nil
  then show ?case by simp
next
  case (Cons kv kvs)
  then show ?case
    by (simp add: lookup_assign_key map_add_def split: option.splits)
qed

lemma has_key_define_all:
  "has_key (fold (\<lambda>kv acc. assign_key acc (fst kv) (snd kv)) kvs acc) k
   \<longleftrightarrow> has_key acc k \<or> k \<in> fst ` set kvs"
  by (induction kvs arbitrary: acc) (auto simp add: has_key_assign_key)



lemma map_of_append_apply:
  "map_of (xs @ ys) k = (case map_of xs k of Some v \<Rightarrow> Some v | None \<Rightarrow> map_of ys k)"
  by (simp add: map_add_def split: option.splits)

lemma lookup_Nil: "lookup [] k = JUndefined"
  by (simp add: lookup_def)

lemma lookup_request_headers:
  assumes "distinct (object_keys (additionalHeaders cfg))"
  shows "lookup (request_headers cfg v) k =
           (if has_key (additionalHeaders cfg) k then lookup (additionalHeaders cfg) k
            else if k = ''Content-Type'' then JStr ''application/json''
            else if k = authHeaderName cfg then v
            else JUndefined)"
proof -
  have spread: "map_of (rev (additionalHeaders cfg)) k = map_of (additionalHeaders cfg) k"
    using assms by (simp add: map_of_rev_distinct object_keys_def)
  have present: "has_key (additionalHeaders cfg) k \<longleftrightarrow> map_of (additionalHeaders cfg) k \<noteq> None"
    by (simp add: has_key_def map_of_eq_None_iff)
  have "lookup (request_headers cfg v) k =
          (case map_of (rev ([(authHeaderName cfg, v), (''Content-Type'', JStr ''application/json'')]
                             @ additionalHeaders cfg)) k of
             Some x \<Rightarrow> x | None \<Rightarrow> JUndefined)"
    unfolding request_headers_def object_literal_def lookup_define_all lookup_Nil ..
  then show ?thesis
    unfolding present
    by (auto simp add: map_add_def spread lookup_def split: option.splits)
qed

lemma has_key_request_headers:
  "has_key (request_headers cfg v) k \<longleftrightarrow>
     k = authHeaderName cfg \<or> k = ''Content-Type'' \<or> has_key (additionalHeaders cfg) k"
  unfolding request_headers_def object_literal_def has_key_define_all
  by (auto simp add: has_key_def)

lemma dispatched_request:
  assumes "snd (createOpenAICompatibleClient cfg h rt messages options) \<noteq> []"
  shows "\<exists>no mn fb req.
           final_request_body cfg h messages (options_or_default options) = Inr (no, mn, fb)
         \<and> build_request cfg rt mn fb = Inr req
         \<and> snd (createOpenAICompatibleClient cfg h rt messages options) = [req]"
proof (cases "final_request_body cfg h messages (options_or_default options)")
  case (Inl e)
  with assms show ?thesis
    by (simp add: snd_client try_block_def)
next
  case (Inr p)
  obtain no mn fb where p: "p = (no, mn, fb)" by (cases p) auto
  show ?thesis
  proof (cases "build_request cfg rt mn fb")
    case (Inl e)
    with assms Inr p show ?thesis
      by (simp add: snd_client try_block_def)
  next
    case request: (Inr req)
    with Inr p have "snd (createOpenAICompatibleClient cfg h rt messages options) = [req]"
      by (simp add: snd_client try_block_def split: sum.splits)
    with Inr p request show ?thesis by blast
  qed
qed

lemma build_request_fields:
  assumes "build_request cfg rt mn fb = Inr req"
  shows "\<exists>v. endpoint_url cfg mn = Inr (url req) \<and> authHeaderValue cfg 1 = Inr v
           \<and> http_method req = ''POST'' \<and> headers req = request_headers cfg v
           \<and> body req = JSON_stringify rt (JObj fb)"
proof (cases "endpoint_url cfg mn")
  case (Inl e)
  with assms show ?thesis by (simp add: build_request_def)
next
  case (Inr u)
  show ?thesis
  proof (cases "authHeaderValue cfg 1")
    case (Inl e)
    with assms Inr show ?thesis by (simp add: build_request_def)
  next
    case credential: (Inr v)
    with assms Inr have "req = \<lparr>url = u, http_method = ''POST'',
        headers = request_headers cfg v, body = JSON_stringify rt (JObj fb)\<rparr>"
      by (simp add: build_request_def)
    with Inr credential show ?thesis by simp
  qed
qed

lemma endpoint_url_cases:
  "endpoint_url cfg mn = Inr u \<longleftrightarrow>
     (case endpoint cfg of EndpointFun f \<Rightarrow> f mn = Inr u | EndpointUrl u' \<Rightarrow> u = u')"
  by (auto simp add: endpoint_url_def split: endpoint.splits)

text \<open>The steps behind a sanitized body, and behind a final body.\<close>

lemma cleaned_request_body_steps:
  assumes "cleaned_request_body cfg h messages opts = Inr (no, mn, cb)"
  shows "\<exists>vm ms.
           normalizeOptions h opts (defaultOptions cfg) = Inr no
         \<and> mn = resolve_entry (modelMapping cfg) (model no)
         \<and> validateAndNormalizeMessages h messages = Inr vm
         \<and> ensureSystemMessage h vm no (resolve_entry (systemPrompts cfg) (model no)) = Inr ms
         \<and> cleanNullAndUndefined h (request_body mn ms no) = Inr cb"
  using assms
  by (auto simp add: cleaned_request_body_def Let_def split: sum.splits)

lemma final_request_body_steps:
  assumes "final_request_body cfg h messages opts = Inr (no, mn, fb)"
  shows "\<exists>cb tb.
           cleaned_request_body cfg h messages opts = Inr (no, mn, cb)
         \<and> (case transformRequest cfg of Some hook \<Rightarrow> hook cb = Inr tb | None \<Rightarrow> tb = cb)
         \<and> fb = (if providerName cfg = ''Cloudflare'' then cloudflare_pass tb else tb)"
  using assms
  by (auto simp add: final_request_body_def apply_transform_def secondary_pass_def
      split: sum.splits prod.splits option.splits)

text \<open>
  Claim C9. A call that reaches dispatch issues exactly one HTTP request: a POST whose URL
  is \<^verbatim>\<open>endpoint(modelName)\<close> for the resolved model name when \<^verbatim>\<open>endpoint\<close> is a function,
  and \<^verbatim>\<open>endpoint\<close> itself otherwise; whose headers are the credential that
  \<^verbatim>\<open>authHeaderValue()\<close> returns at line 144 under \<^verbatim>\<open>authHeaderName\<close> and
  \<^verbatim>\<open>Content-Type: application/json\<close>, overridden and extended by the entries of
  \<^verbatim>\<open>additionalHeaders\<close>; and whose body is \<^verbatim>\<open>JSON.stringify\<close> of the request body: the
  literal of lines 76-86 after the sanitizer, then after the \<^verbatim>\<open>transformRequest\<close> hook
  when one is configured, then after the secondary pass when the provider is Cloudflare.
  (\<^verbatim>\<open>additionalHeaders\<close> is an object: its keys are distinct.)
\<close>

theorem dispatch_sends_one_post:
  assumes "snd (createOpenAICompatibleClient cfg h rt messages options) \<noteq> []"
    and "distinct (object_keys (additionalHeaders cfg))"
  shows "\<exists>no vm ms cb tb req v.
      normalizeOptions h (options_or_default options) (defaultOptions cfg) = Inr no
    \<and> validateAndNormalizeMessages h messages = Inr vm
    \<and> ensureSystemMessage h vm no (resolve_entry (systemPrompts cfg) (model no)) = Inr ms
    \<and> cleanNullAndUndefined h
          (request_body (resolve_entry (modelMapping cfg) (model no)) ms no) = Inr cb
    \<and> (case transformRequest cfg of Some hook \<Rightarrow> hook cb = Inr tb | None \<Rightarrow> tb = cb)
    \<and> snd (createOpenAICompatibleClient cfg h rt messages options) = [req]
    \<and> http_method req = ''POST''
    \<and> (case endpoint cfg of
          EndpointFun f \<Rightarrow> f (resolve_entry (modelMapping cfg) (model no)) = Inr (url req)
        | EndpointUrl u \<Rightarrow> url req = u)
    \<and> authHeaderValue cfg 1 = Inr v
    \<and> (\<forall>k. lookup (headers req) k =
            (if has_key (additionalHeaders cfg) k then lookup (additionalHeaders cfg) k
             else if k = ''Content-Type'' then JStr ''application/json''
             else if k = authHeaderName cfg then v
             else JUndefined))
    \<and> (\<forall>k. has_key (headers req) k \<longleftrightarrow>
            k = authHeaderName cfg \<or> k = ''Content-Type'' \<or> has_key (additionalHeaders cfg) k)
    \<and> body req
      = JSON_stringify rt
          (JObj (if providerName cfg = ''Cloudflare'' then cloudflare_pass tb else tb))"
proof -
  from assms(1) obtain no mn fb req where
    final: "final_request_body cfg h messages (options_or_default options) = Inr (no, mn, fb)"
    and built: "build_request cfg rt mn fb = Inr req"
    and sent: "snd (createOpenAICompatibleClient cfg h rt messages options) = [req]"
    using dispatched_request by blast
  from final obtain cb tb where
    cleaned: "cleaned_request_body cfg h messages (options_or_default options) = Inr (no, mn, cb)"
    and hooked: "case transformRequest cfg of Some hook \<Rightarrow> hook cb = Inr tb | None \<Rightarrow> tb = cb"
    and passed: "fb = (if providerName cfg = ''Cloudflare'' then cloudflare_pass tb else tb)"
    using final_request_body_steps by blast
  from cleaned obtain vm ms where
    options: "normalizeOptions h (options_or_default options) (defaultOptions cfg) = Inr no"
    and name: "mn = resolve_entry (modelMapping cfg) (model no)"
    and valid: "validateAndNormalizeMessages h messages = Inr vm"
    and prompt: "ensureSystemMessage h vm no (resolve_entry (systemPrompts cfg) (model no))
                 = Inr ms"
    and sanitized: "cleanNullAndUndefined h (request_body mn ms no) = Inr cb"
    using cleaned_request_body_steps by blast
  from built obtain v where
    target: "endpoint_url cfg mn = Inr (url req)"
    and credential: "authHeaderValue cfg 1 = Inr v"
    and post: "http_method req = ''POST''"
    and hs: "headers req = request_headers cfg v"
    and payload: "body req = JSON_stringify rt (JObj fb)"
    using build_request_fields by blast
  from target have address:
    "case endpoint cfg of
       EndpointFun f \<Rightarrow> f (resolve_entry (modelMapping cfg) (model no)) = Inr (url req)
     | EndpointUrl u \<Rightarrow> url req = u"
    by (simp add: endpoint_url_cases name)
  have header_values: "\<forall>k. lookup (headers req) k =
            (if has_key (additionalHeaders cfg) k then lookup (additionalHeaders cfg) k
             else if k = ''Content-Type'' then JStr ''application/json''
             else if k = authHeaderName cfg then v
             else JUndefined)"
    unfolding hs using assms(2) by (simp add: lookup_request_headers)
  have keys: "\<forall>k. has_key (headers req) k \<longleftrightarrow>
            k = authHeaderName cfg \<or> k = ''Content-Type'' \<or> has_key (additionalHeaders cfg) k"
    unfolding hs by (simp add: has_key_request_headers)
  from sanitized have sanitized':
    "cleanNullAndUndefined h
       (request_body (resolve_entry (modelMapping cfg) (model no)) ms no) = Inr cb"
    by (simp add: name)
  from payload have payload':
    "body req = JSON_stringify rt
          (JObj (if providerName cfg = ''Cloudflare'' then cloudflare_pass tb else tb))"
    by (simp add: passed)
  from options valid prompt sanitized' hooked sent post address credential header_values keys payload'
  show ?thesis by blast
qed

lemma routed_run:
  "snd (createOpenAICompatibleClient routed_config spec_helpers printing_upstream
          hello_messages (JObj []))
   = [routed_request]"
  by (simp add: evaluation_defs variation_defs)

theorem dispatch_witness:
  "snd (createOpenAICompatibleClient routed_config spec_helpers printing_upstream
          hello_messages (JObj [])) = [routed_request]
   \<and> distinct (object_keys (additionalHeaders routed_config))
   \<and> http_method routed_request = ''POST''
   \<and> endpoint routed_config = EndpointFun model_endpoint
   \<and> model_endpoint model_name = Inr (url routed_request)
   \<and> authHeaderValue routed_config 0 = Inr (JStr ''Bearer first'')
   \<and> authHeaderValue routed_config 1 = Inr (JStr ''Bearer second'')
   \<and> headers routed_request
     = [(''Authorization'', JStr ''Bearer second''),
        (''Content-Type'', JStr ''application/json''),
        (''X-Title'', JStr ''pollinations'')]
   \<and> transformRequest routed_config = Some user_hook
   \<and> user_hook plain_body = Inr routed_body
   \<and> cloudflare_pass routed_body = routed_body
   \<and> body routed_request = JSON_stringify printing_upstream (JObj routed_body)
   \<and> JSON_stringify printing_upstream (JObj routed_body)
     \<noteq> JSON_stringify printing_upstream (JObj plain_body)"
proof -
  have sent: "snd (createOpenAICompatibleClient routed_config spec_helpers printing_upstream
          hello_messages (JObj [])) \<noteq> []"
    by (simp add: routed_run)
  have keys: "distinct (object_keys (additionalHeaders routed_config))"
    by (simp add: routed_config_def object_keys_def)
  from dispatch_sends_one_post [OF sent keys] obtain req where
    "snd (createOpenAICompatibleClient routed_config spec_helpers printing_upstream
          hello_messages (JObj [])) = [req]"
    and "http_method req = ''POST''"
    by blast
  then have post: "http_method routed_request = ''POST''"
    by (simp add: routed_run)
  have rest: "endpoint routed_config = EndpointFun model_endpoint
   \<and> model_endpoint model_name = Inr (url routed_request)
   \<and> authHeaderValue routed_config 0 = Inr (JStr ''Bearer first'')
   \<and> authHeaderValue routed_config 1 = Inr (JStr ''Bearer second'')
   \<and> headers routed_request
     = [(''Authorization'', JStr ''Bearer second''),
        (''Content-Type'', JStr ''application/json''),
        (''X-Title'', JStr ''pollinations'')]
   \<and> transformRequest routed_config = Some user_hook
   \<and> user_hook plain_body = Inr routed_body"
    by (simp add: variation_defs model_name_def plain_body_def)
  have pass: "cloudflare_pass routed_body = routed_body"
    by (simp add: evaluation_defs variation_defs)
  have printed: "body routed_request = JSON_stringify printing_upstream (JObj routed_body)"
    by (simp add: routed_request_def printing_upstream_def)
  have differs: "JSON_stringify printing_upstream (JObj routed_body)
     \<noteq> JSON_stringify printing_upstream (JObj plain_body)"
    by (simp add: printing_upstream_def routed_body_def plain_body_def double_quoted_def)
  from routed_run keys post rest pass printed differs show ?thesis
    by blast
qed











section \<open>The response normalizer\<close>








end
